theory Spec2Isabelle
  imports Main "HOL-Library.Multiset" "HOL-Library.Word"
begin

section \<open>PhotoShare: the image routes (src/routes/images.py) and the rating schema\<close>

text \<open>
  The model starts where a route handler is invoked: the request has been routed, the
  rate limiter has let it through and the authentication dependency has supplied
  \<open>current_user\<close>. Each handler is a function of the repository module, the external
  image service, the number drawn by \<open>random.randint\<close>, the state and the request's
  arguments; it returns the handler's result (an error or a value) and the new state.
  The state is the database session together with the log of the calls made to the
  external service, so that "no external call" and "no new row" are statements about it.
\<close>

subsection \<open>Data model\<close>

text \<open>
  Modelled from the spec: the ORM classes and enumerations of src/database/models.py
  (missing from the sources). The records follow section 3 of the specification and the
  attributes the routes read (\<open>current_user.email\<close>, \<open>image.link\<close>); the roles are the
  closed set of section 3. Timestamps play no part in the routes and are left out.
\<close>

datatype Role = admin | moderator | regular

record User =
  user_ident :: int
  email :: string
  role :: Role

record Image =
  ident :: int
  owner_id :: int
  link :: string
  description :: string
  tags :: "string list"

text \<open>
  A transformed image as \<open>save_transformed_image(db, link, image_id)\<close> can build it: its
  own identifier, the derived URL (\<open>.link\<close> in the source) and the parent image's identifier.
\<close>

record TransformedImage =
  t_ident :: int
  t_link :: string
  t_image_id :: int

record db_state =
  images :: "Image list"
  transformed_images :: "TransformedImage list"

type_synonym byte = "8 word"

text \<open>
  Modelled from the spec: the request bodies of src/schemas/images.py and the enumerations
  \<open>Crop\<close>, \<open>Effect\<close> and \<open>SortBy\<close> (missing from the sources), by the members the routes read:
  \<open>size.width\<close>, \<open>size.height\<close>, \<open>crop.value\<close>, \<open>e.value\<close>. A member of \<open>Crop\<close> or \<open>Effect\<close>
  is given by its value; the sort keys are the two section 4.5 names.
\<close>

record ImageSchema =
  body_description :: string
  body_tags :: "string list"

record UpdateImageSchema =
  width :: int
  height :: int

datatype Crop = Crop (crop_value: string)

datatype Effect = Effect (effect_value: string)

datatype SortBy = by_rating | by_date

subsection \<open>Errors\<close>

text \<open>
  \<open>HTTPException\<close> is what the routes of the source raise themselves, with the status code
  and the detail text. The other errors come from code outside the routes and carry the
  specification's names: \<open>InvalidInput\<close>, \<open>InvalidQuery\<close> and \<open>InvalidTransform\<close> for a
  request the framework's validation of bodies and parameters refuses, \<open>Forbidden\<close> for a
  denial by \<open>RoleAccess\<close>, \<open>UpstreamFailure\<close> for an exception of the external image
  service, which the routes do not catch.
\<close>

datatype error =
    HTTPException nat string
  | InvalidInput
  | InvalidQuery
  | InvalidTransform
  | Forbidden
  | UpstreamFailure

abbreviation HTTP_400_BAD_REQUEST :: nat where
  "HTTP_400_BAD_REQUEST \<equiv> 400"

abbreviation HTTP_404_NOT_FOUND :: nat where
  "HTTP_404_NOT_FOUND \<equiv> 404"

subsection \<open>The external image service\<close>

text \<open>
  \<open>cloudinary.uploader.upload(file, public_id=..., overwrite=..., transformation=...)\<close>:
  the first argument is the raw bytes (upload) or a source URL (crop, effect). The service
  is a parameter \<open>service\<close> of the routes: it answers a request with the \<open>secure_url\<close> of
  its result, or \<open>None\<close> when it raises. Every call is appended to the log.
\<close>

datatype upload_source = Bytes "byte list" | Url string

record upload_request =
  req_file :: upload_source
  req_public_id :: string
  req_overwrite :: "bool option"
  req_transformation :: "(string \<times> string) list option"

record world =
  session :: db_state
  uploads :: "upload_request list"

definition cloudinary_uploader_upload ::
  "(upload_request \<Rightarrow> string option) \<Rightarrow> upload_request \<Rightarrow> world \<Rightarrow> string option \<times> world" where
  "cloudinary_uploader_upload service req w = (service req, w\<lparr>uploads := uploads w @ [req]\<rparr>)"

subsection \<open>Formatting integers, as an f-string does\<close>

text \<open>Decimal digits, most significant first; \<open>digit\<close> is only applied below ten.\<close>

definition digit :: "nat \<Rightarrow> char" where
  "digit n = ''0123456789'' ! n"

function str_nat :: "nat \<Rightarrow> string" where
  "str_nat n = (if n < 10 then [digit n] else str_nat (n div 10) @ [digit (n mod 10)])"
  by pat_completeness auto
termination
  by (relation "measure id") auto

declare str_nat.simps [simp del]

definition str_int :: "int \<Rightarrow> string" where
  "str_int i = (if i < 0 then CHR ''-'' # str_nat (nat (- i)) else str_nat (nat i))"

subsection \<open>The repository module\<close>

text \<open>
  \<open>src/repository/images.py\<close> is not among the sources. The routes reach it as
  \<open>repository_images.f(...)\<close>; here the module is a record of functions, passed to every
  route, so that what is proved of a route holds whatever the repository does. Reads
  return their result; writes return it with the new session.
\<close>

record repository_images =
  create_image :: "db_state \<Rightarrow> string \<Rightarrow> ImageSchema \<Rightarrow> User \<Rightarrow> Image \<times> db_state"
  get_image_db :: "db_state \<Rightarrow> int \<Rightarrow> User \<Rightarrow> Image option"
  save_transformed_image :: "db_state \<Rightarrow> string \<Rightarrow> int \<Rightarrow> TransformedImage \<times> db_state"
  get_transformed_image_db :: "db_state \<Rightarrow> int \<Rightarrow> TransformedImage option"
  generate_qrcode_by_image :: "string \<Rightarrow> byte list"
  search_images_by_description_or_tag :: "string \<Rightarrow> db_state \<Rightarrow> Image list"
  get_images_by_user_id_db :: "db_state \<Rightarrow> int \<Rightarrow> Image list"

text \<open>
  Modelled from the spec: \<open>repository_images.sorter\<close> (src/repository/images.py is missing).
  Section 4.5: the sort key is one of a fixed enumeration, \<open>descending\<close> is a boolean flag,
  and the sort is stable. How a key is read off an image is the parameter \<open>key_of\<close>.
  Descending order reverses, sorts and reverses again, which keeps equal keys in their
  original order.
\<close>

definition sorter :: "(SortBy \<Rightarrow> Image \<Rightarrow> 'k::linorder) \<Rightarrow> Image list \<Rightarrow> SortBy \<Rightarrow> bool \<Rightarrow> Image list" where
  "sorter key_of imgs order_by descending =
     (if descending then rev (sort_key (key_of order_by) (rev imgs))
      else sort_key (key_of order_by) imgs)"

text \<open>
  Modelled from the spec: \<open>RoleAccess\<close> (src/services/roles.py is missing). Section 4.2:
  an actor whose role is not among the allowed ones is refused with \<open>Forbidden\<close>.
\<close>

definition RoleAccess :: "Role list \<Rightarrow> User \<Rightarrow> error + unit" where
  "RoleAccess allowed_roles u = (if role u \<in> set allowed_roles then Inr () else Inl Forbidden)"

subsection \<open>The routes\<close>

text \<open>
  The requests the routes send to the external service: the public identifier is
  \<open>f'PhotoShare/{current_user.email}_{random.randint(1, 1000000)}'\<close> for an upload and
  starts with \<open>PhotoShare(transformed)/\<close> for a transformation; \<open>rnd\<close> is the number drawn.
\<close>

definition upload_request_of :: "byte list \<Rightarrow> User \<Rightarrow> int \<Rightarrow> upload_request" where
  "upload_request_of file_content current_user rnd =
     \<lparr>req_file = Bytes file_content,
      req_public_id = ''PhotoShare/'' @ email current_user @ ''_'' @ str_int rnd,
      req_overwrite = Some True,
      req_transformation = None\<rparr>"

definition crop_request :: "Image \<Rightarrow> UpdateImageSchema \<Rightarrow> Crop \<Rightarrow> User \<Rightarrow> int \<Rightarrow> upload_request" where
  "crop_request img sz crop current_user rnd =
     \<lparr>req_file = Url (link img),
      req_public_id = ''PhotoShare(transformed)/'' @ email current_user @ ''_'' @ str_int rnd,
      req_overwrite = None,
      req_transformation = Some [(''crop'', crop_value crop),
                                 (''width'', str_int (width sz)),
                                 (''height'', str_int (height sz))]\<rparr>"

definition effect_request :: "Image \<Rightarrow> Effect \<Rightarrow> User \<Rightarrow> int \<Rightarrow> upload_request" where
  "effect_request img e current_user rnd =
     \<lparr>req_file = Url (link img),
      req_public_id = ''PhotoShare(transformed)/'' @ email current_user @ ''_'' @ str_int rnd,
      req_overwrite = None,
      req_transformation = Some [(''effect'', ''art:'' @ effect_value e)]\<rparr>"

definition upload_image ::
  "repository_images \<Rightarrow> (upload_request \<Rightarrow> string option) \<Rightarrow> int \<Rightarrow> world \<Rightarrow>
   byte list \<Rightarrow> ImageSchema \<Rightarrow> User \<Rightarrow> (error + Image) \<times> world" where
  "upload_image R service rnd w file_content body current_user =
     (let max_size = 5 * 1024 * 1024;
          file_size = length file_content
      in if file_size > max_size
         then (Inl (HTTPException HTTP_400_BAD_REQUEST ''File size exceeds 5MB''), w)
         else
           (case cloudinary_uploader_upload service
                   (upload_request_of file_content current_user rnd) w of
              (None, w1) \<Rightarrow> (Inl UpstreamFailure, w1)
            | (Some lnk, w1) \<Rightarrow>
                (case create_image R (session w1) lnk body current_user of
                   (img, db') \<Rightarrow> (Inr img, w1\<lparr>session := db'\<rparr>))))"

definition get_image :: "repository_images \<Rightarrow> db_state \<Rightarrow> int \<Rightarrow> User \<Rightarrow> error + Image" where
  "get_image R db image_id current_user =
     (case get_image_db R db image_id current_user of
        None \<Rightarrow> Inl (HTTPException HTTP_404_NOT_FOUND ''Image not found'')
      | Some img \<Rightarrow> Inr img)"

definition crop_image ::
  "repository_images \<Rightarrow> (upload_request \<Rightarrow> string option) \<Rightarrow> int \<Rightarrow> world \<Rightarrow>
   int \<Rightarrow> UpdateImageSchema \<Rightarrow> Crop \<Rightarrow> User \<Rightarrow> (error + TransformedImage) \<times> world" where
  "crop_image R service rnd w image_id sz crop current_user =
     (case get_image_db R (session w) image_id current_user of
        None \<Rightarrow> (Inl (HTTPException HTTP_404_NOT_FOUND ''Image not found''), w)
      | Some img \<Rightarrow>
          (case cloudinary_uploader_upload service
                  (crop_request img sz crop current_user rnd) w of
             (None, w1) \<Rightarrow> (Inl UpstreamFailure, w1)
           | (Some lnk, w1) \<Rightarrow>
               (case save_transformed_image R (session w1) lnk image_id of
                  (t, db') \<Rightarrow> (Inr t, w1\<lparr>session := db'\<rparr>))))"

definition use_effect ::
  "repository_images \<Rightarrow> (upload_request \<Rightarrow> string option) \<Rightarrow> int \<Rightarrow> world \<Rightarrow>
   int \<Rightarrow> Effect \<Rightarrow> User \<Rightarrow> (error + TransformedImage) \<times> world" where
  "use_effect R service rnd w image_id e current_user =
     (case get_image_db R (session w) image_id current_user of
        None \<Rightarrow> (Inl (HTTPException HTTP_404_NOT_FOUND ''Image not found''), w)
      | Some img \<Rightarrow>
          (case cloudinary_uploader_upload service
                  (effect_request img e current_user rnd) w of
             (None, w1) \<Rightarrow> (Inl UpstreamFailure, w1)
           | (Some lnk, w1) \<Rightarrow>
               (case save_transformed_image R (session w1) lnk image_id of
                  (t, db') \<Rightarrow> (Inr t, w1\<lparr>session := db'\<rparr>))))"

text \<open>
  \<open>generate_qrcode\<close> receives \<open>current_user\<close> from the authentication dependency and
  passes it to nothing: the lookup takes the session and the identifier only.
\<close>

definition generate_qrcode ::
  "repository_images \<Rightarrow> db_state \<Rightarrow> int \<Rightarrow> User \<Rightarrow> error + byte list" where
  "generate_qrcode R db image_id current_user =
     (case get_transformed_image_db R db image_id of
        None \<Rightarrow> Inl (HTTPException HTTP_404_NOT_FOUND ''Image not found'')
      | Some timg \<Rightarrow> Inr (generate_qrcode_by_image R (t_link timg)))"

text \<open>
  \<open>image_query: str = Path(..., min_length=2)\<close>: the framework refuses a shorter query
  before the body of the route runs. An element of the list \<open>image_query\<close> stands for one
  character of the query, so \<open>length\<close> is Python's \<open>len\<close>.
\<close>

definition search_images ::
  "repository_images \<Rightarrow> (SortBy \<Rightarrow> Image \<Rightarrow> 'k::linorder) \<Rightarrow> db_state \<Rightarrow>
   SortBy \<Rightarrow> bool \<Rightarrow> string \<Rightarrow> User \<Rightarrow> error + Image list" where
  "search_images R key_of db order_by descending image_query current_user =
     (if length image_query < 2 then Inl InvalidQuery
      else
        (let image_by_description = search_images_by_description_or_tag R image_query db
         in if length image_by_description = 0
            then Inl (HTTPException HTTP_404_NOT_FOUND ''Images with this query not found'')
            else Inr (sorter key_of image_by_description order_by descending)))"

definition get_images_by_user_id ::
  "repository_images \<Rightarrow> db_state \<Rightarrow> int \<Rightarrow> User \<Rightarrow> error + Image list" where
  "get_images_by_user_id R db user_id current_user =
     (case RoleAccess [admin, moderator] current_user of
        Inl err \<Rightarrow> Inl err
      | Inr _ \<Rightarrow> Inr (get_images_by_user_id_db R db user_id))"

subsection \<open>Validation of a crop request\<close>

text \<open>
  Modelled from the spec: the validation carried by \<open>UpdateImageSchema\<close>
  (src/schemas/images.py, missing). Section 4.3: width and height are positive integers;
  invalid parameters fail with \<open>InvalidTransform\<close>.
\<close>

definition validate_UpdateImageSchema :: "int \<Rightarrow> int \<Rightarrow> error + UpdateImageSchema" where
  "validate_UpdateImageSchema raw_width raw_height =
     (if 0 < raw_width \<and> 0 < raw_height
      then Inr \<lparr>width = raw_width, height = raw_height\<rparr>
      else Inl InvalidTransform)"

text \<open>
  Modelled from the spec: the validation carried by the enumeration \<open>Crop\<close>
  (src/database/models.py, missing). Section 4.3: the crop mode is one of a fixed
  enumeration, whose members are the parameter \<open>crop_modes\<close>.
\<close>

definition validate_Crop :: "string list \<Rightarrow> string \<Rightarrow> error + Crop" where
  "validate_Crop crop_modes raw_crop =
     (if raw_crop \<in> set crop_modes then Inr (Crop raw_crop) else Inl InvalidTransform)"

text \<open>
  Modelled from the spec: a crop request at the boundary. The framework validates the
  parameters of a route before it runs the body, so a crop request is the two validations
  followed by \<open>crop_image\<close> (section 4.3: invalid parameters never reach the external
  service).
\<close>

definition crop_image_request ::
  "repository_images \<Rightarrow> (upload_request \<Rightarrow> string option) \<Rightarrow> string list \<Rightarrow> int \<Rightarrow> world \<Rightarrow>
   int \<Rightarrow> int \<Rightarrow> int \<Rightarrow> string \<Rightarrow> User \<Rightarrow> (error + TransformedImage) \<times> world" where
  "crop_image_request R service crop_modes rnd w image_id raw_width raw_height raw_crop current_user =
     (case validate_UpdateImageSchema raw_width raw_height of
        Inl err \<Rightarrow> (Inl err, w)
      | Inr sz \<Rightarrow>
          (case validate_Crop crop_modes raw_crop of
             Inl err \<Rightarrow> (Inl err, w)
           | Inr crop \<Rightarrow> crop_image R service rnd w image_id sz crop current_user))"

subsection \<open>The rating and comment schemas (src/schemas)\<close>



record CommentModel =
  comment_text :: string
  comment_image_id :: int

definition validate_CommentModel :: "string \<Rightarrow> int \<Rightarrow> error + CommentModel" where
  "validate_CommentModel raw_text raw_image_id =
     (if length raw_text \<le> 250
      then Inr \<lparr>comment_text = raw_text, comment_image_id = raw_image_id\<rparr>
      else Inl InvalidInput)"



subsection \<open>A repository after the specification\<close>

text \<open>
  Modelled from the spec: the access policy of section 4.2 (the policy object is missing
  from the sources). An actor may act on an image iff the actor is an admin, or a
  moderator for a read-class operation, or the image's owner.
\<close>

datatype operation = op_read | op_update | op_delete | op_transform

definition canAct :: "User \<Rightarrow> Image \<Rightarrow> operation \<Rightarrow> bool" where
  "canAct actor img oper =
     (role actor = admin \<or> (role actor = moderator \<and> oper = op_read) \<or>
      owner_id img = user_ident actor)"

text \<open>
  Modelled from the spec: identifiers of new rows (src/repository/images.py and the
  database are missing). A new row has an identifier larger than every one in its table.
\<close>

definition fresh_ident :: "int list \<Rightarrow> int" where
  "fresh_ident ids = foldr max ids 0 + 1"

text \<open>
  Modelled from the spec: \<open>repository_images.create_image\<close> (missing). Section 4.4:
  persists a new image owned by the actor with the durable URL and the metadata.
\<close>

definition create_image_spec :: "db_state \<Rightarrow> string \<Rightarrow> ImageSchema \<Rightarrow> User \<Rightarrow> Image \<times> db_state" where
  "create_image_spec db lnk body current_user =
     (let img = \<lparr>ident = fresh_ident (map ident (images db)),
                 owner_id = user_ident current_user,
                 link = lnk,
                 description = body_description body,
                 tags = body_tags body\<rparr>
      in (img, db\<lparr>images := images db @ [img]\<rparr>))"

text \<open>
  Modelled from the spec: \<open>repository_images.get_image_db\<close> (missing). Section 4.4: the
  image with the identifier, if the actor may access it; an absent image and an
  inaccessible one give the same result. The policy is the parameter \<open>may\<close>.
\<close>

definition get_image_db_spec :: "(User \<Rightarrow> Image \<Rightarrow> bool) \<Rightarrow> db_state \<Rightarrow> int \<Rightarrow> User \<Rightarrow> Image option" where
  "get_image_db_spec may db image_id current_user =
     find (\<lambda>img. ident img = image_id \<and> may current_user img) (images db)"

text \<open>
  Modelled from the spec: \<open>repository_images.save_transformed_image\<close> (missing).
  Section 4.4: persists a new transformed-image row linked to the parent image and does
  not mutate the parent; transformations are additive history.
\<close>

definition save_transformed_image_spec :: "db_state \<Rightarrow> string \<Rightarrow> int \<Rightarrow> TransformedImage \<times> db_state" where
  "save_transformed_image_spec db lnk image_id =
     (let t = \<lparr>t_ident = fresh_ident (map t_ident (transformed_images db)),
               t_link = lnk,
               t_image_id = image_id\<rparr>
      in (t, db\<lparr>transformed_images := transformed_images db @ [t]\<rparr>))"

text \<open>
  Modelled from the spec: \<open>repository_images.get_transformed_image_db\<close> (missing).
  Section 6: the image identifier is resolved against its latest transformed image.
\<close>

definition get_transformed_image_db_spec :: "db_state \<Rightarrow> int \<Rightarrow> TransformedImage option" where
  "get_transformed_image_db_spec db image_id =
     (case filter (\<lambda>t. t_image_id t = image_id) (transformed_images db) of
        [] \<Rightarrow> None
      | t # ts \<Rightarrow> Some (last (t # ts)))"

text \<open>
  Modelled from the spec: \<open>repository_images.search_images_by_description_or_tag\<close>
  (missing). Section 4.5: the images whose description or tags the query matches; the
  matching rule, whose case policy the specification leaves open, is the parameter
  \<open>matches\<close>.
\<close>

definition search_spec :: "(string \<Rightarrow> Image \<Rightarrow> bool) \<Rightarrow> string \<Rightarrow> db_state \<Rightarrow> Image list" where
  "search_spec matches image_query db = filter (matches image_query) (images db)"

text \<open>
  Modelled from the spec: \<open>repository_images.get_images_by_user_id\<close> (missing).
  Section 4.4: all images owned by the target user.
\<close>

definition get_images_by_user_id_spec :: "db_state \<Rightarrow> int \<Rightarrow> Image list" where
  "get_images_by_user_id_spec db user_id = filter (\<lambda>img. owner_id img = user_id) (images db)"

text \<open>
  Modelled from the spec: the repository module assembled from the functions above; the
  encoding of a URL as a QR payload is the parameter \<open>qr\<close> (section 4.6: a pure,
  deterministic derivation).
\<close>

definition repository_spec ::
  "(User \<Rightarrow> Image \<Rightarrow> bool) \<Rightarrow> (string \<Rightarrow> Image \<Rightarrow> bool) \<Rightarrow> (string \<Rightarrow> byte list) \<Rightarrow> repository_images" where
  "repository_spec may matches qr =
     \<lparr>create_image = create_image_spec,
      get_image_db = get_image_db_spec may,
      save_transformed_image = save_transformed_image_spec,
      get_transformed_image_db = get_transformed_image_db_spec,
      generate_qrcode_by_image = qr,
      search_images_by_description_or_tag = search_spec matches,
      get_images_by_user_id_db = get_images_by_user_id_spec\<rparr>"

subsection \<open>A small instance\<close>

text \<open>
  Two regular users, a moderator and an admin; two images of alice's and one of bob's.
  The instance reads images under the read-class policy and matches a query against the
  tags.
\<close>

definition alice :: User where
  "alice = \<lparr>user_ident = 1, email = ''alice@example.com'', role = regular\<rparr>"

definition bob :: User where
  "bob = \<lparr>user_ident = 2, email = ''bob@example.com'', role = regular\<rparr>"

definition carol :: User where
  "carol = \<lparr>user_ident = 3, email = ''carol@example.com'', role = moderator\<rparr>"

definition dave :: User where
  "dave = \<lparr>user_ident = 4, email = ''dave@example.com'', role = admin\<rparr>"

definition sunset :: Image where
  "sunset = \<lparr>ident = 1, owner_id = 1, link = ''https://img.example/sunset.jpg'',
             description = ''sunset at sea'', tags = [''sea'', ''sky'']\<rparr>"

definition harbour :: Image where
  "harbour = \<lparr>ident = 2, owner_id = 2, link = ''https://img.example/harbour.jpg'',
              description = ''harbour'', tags = [''sea'']\<rparr>"

definition forest :: Image where
  "forest = \<lparr>ident = 3, owner_id = 1, link = ''https://img.example/forest.jpg'',
             description = ''forest path'', tags = [''tree'']\<rparr>"

definition sunset_sepia :: TransformedImage where
  "sunset_sepia = \<lparr>t_ident = 1, t_link = ''https://img.example/sunset_sepia.jpg'', t_image_id = 1\<rparr>"

definition db0 :: db_state where
  "db0 = \<lparr>images = [sunset, harbour, forest], transformed_images = [sunset_sepia]\<rparr>"

definition w0 :: world where
  "w0 = \<lparr>session = db0, uploads = []\<rparr>"

definition service0 :: "upload_request \<Rightarrow> string option" where
  "service0 req = Some (''https://img.example/'' @ req_public_id req)"

definition tag_matches :: "string \<Rightarrow> Image \<Rightarrow> bool" where
  "tag_matches image_query img = (image_query \<in> set (tags img))"

definition qr0 :: "string \<Rightarrow> byte list" where
  "qr0 url = map of_char url"

definition repo0 :: repository_images where
  "repo0 = repository_spec (\<lambda>actor img. canAct actor img op_read) tag_matches qr0"

definition rating0 :: "SortBy \<Rightarrow> Image \<Rightarrow> int" where
  "rating0 order_by img =
     (case order_by of
        by_rating \<Rightarrow> (if ident img = 2 then 5 else 3)
      | by_date \<Rightarrow> ident img)"


section \<open>Facts about the model and the instance\<close>

lemma str_nat_7: "str_nat 7 = ''7''"
  by (simp add: str_nat.simps digit_def)

lemma repo0_lookup_absent: "get_image_db repo0 db0 99 bob = None"
  by (simp add: repo0_def repository_spec_def get_image_db_spec_def db0_def
      sunset_def harbour_def forest_def)

lemma repo0_lookup_inaccessible: "get_image_db repo0 db0 1 bob = None"
  by (simp add: repo0_def repository_spec_def get_image_db_spec_def db0_def
      sunset_def harbour_def forest_def canAct_def bob_def)

lemma repo0_lookup_own: "get_image_db repo0 db0 1 alice = Some sunset"
  by (simp add: repo0_def repository_spec_def get_image_db_spec_def db0_def
      sunset_def canAct_def alice_def)

lemma repo0_transformed_lookup: "get_transformed_image_db repo0 db0 1 = Some sunset_sepia"
  by (simp add: repo0_def repository_spec_def get_transformed_image_db_spec_def db0_def
      sunset_sepia_def)

lemma repo0_search_sea: "search_images_by_description_or_tag repo0 ''sea'' db0 = [sunset, harbour]"
  by (simp add: repo0_def repository_spec_def search_spec_def db0_def tag_matches_def
      sunset_def harbour_def forest_def)

lemma repo0_search_ab: "search_images_by_description_or_tag repo0 ''ab'' db0 = []"
  by (simp add: repo0_def repository_spec_def search_spec_def db0_def tag_matches_def
      sunset_def harbour_def forest_def)

lemma service0_crop:
  "service0 (crop_request sunset \<lparr>width = 100, height = 80\<rparr> (Crop ''fill'') alice 7) =
     Some ''https://img.example/PhotoShare(transformed)/alice@example.com_7''"
  by (simp add: service0_def crop_request_def alice_def str_int_def str_nat_7)

lemma service0_effect:
  "service0 (effect_request sunset (Effect ''sizzle'') alice 7) =
     Some ''https://img.example/PhotoShare(transformed)/alice@example.com_7''"
  by (simp add: service0_def effect_request_def alice_def str_int_def str_nat_7)

lemma get_image_db_spec_ident:
  "get_image_db_spec may db image_id current_user = Some img \<Longrightarrow>
   ident img = image_id \<and> may current_user img \<and> img \<in> set (images db)"
  unfolding get_image_db_spec_def
  by (auto simp: find_Some_iff)

text \<open>The sorter permutes its input, orders it and keeps equal keys in place.\<close>

lemma mset_sorter: "mset (sorter key_of imgs order_by descending) = mset imgs"
  by (simp add: sorter_def)

lemma sorted_desc_sorter:
  "sorted_wrt (\<lambda>a b. key_of order_by b \<le> key_of order_by a) (sorter key_of imgs order_by True)"
proof -
  have "sorted (map (key_of order_by) (sort_key (key_of order_by) (rev imgs)))"
    by (rule sorted_sort_key)
  then have "sorted_wrt (\<lambda>a b. key_of order_by a \<le> key_of order_by b)
               (sort_key (key_of order_by) (rev imgs))"
    by (simp add: sorted_wrt_map)
  then show ?thesis
    by (simp add: sorter_def sorted_wrt_rev)
qed

lemma stable_sorter:
  "filter (\<lambda>img. key_of order_by img = k) (sorter key_of imgs order_by descending) =
   filter (\<lambda>img. key_of order_by img = k) imgs"
proof (cases descending)
  case True
  have "filter (\<lambda>img. key_of order_by img = k) (rev (sort_key (key_of order_by) (rev imgs))) =
        rev (filter (\<lambda>img. key_of order_by img = k) (sort_key (key_of order_by) (rev imgs)))"
    by (simp add: rev_filter)
  also have "\<dots> = rev (filter (\<lambda>img. key_of order_by img = k) (rev imgs))"
    by (simp only: sort_key_stable)
  also have "\<dots> = filter (\<lambda>img. key_of order_by img = k) imgs"
    by (simp add: rev_filter)
  finally show ?thesis using True by (simp add: sorter_def)
next
  case False
  then show ?thesis by (simp add: sorter_def sort_key_stable)
qed

section \<open>The claims\<close>

subsection \<open>C1: a denied crop or effect changes nothing\<close>

text \<open>
  Claim C1. For every actor and every crop or effect request on an image that the lookup
  \<open>get_image_db\<close> does not return to the actor (the image is absent or the actor may not
  access it), the route fails with 404 "Image not found" and returns the state it was
  given: the log of external calls has no new entry and the session has no new
  transformed-image row. This holds for every repository, external service and drawn
  number.
\<close>

theorem denied_transformation_changes_nothing:
  assumes "get_image_db R (session w) image_id current_user = None"
  shows "crop_image R service rnd w image_id sz crop current_user =
           (Inl (HTTPException HTTP_404_NOT_FOUND ''Image not found''), w)
       \<and> use_effect R service rnd w image_id e current_user =
           (Inl (HTTPException HTTP_404_NOT_FOUND ''Image not found''), w)"
  using assms by (simp add: crop_image_def use_effect_def)

text \<open>
  In the instance bob, a regular user, asks to crop alice's image 1 and to apply an effect
  to image 99, which does not exist.
\<close>

theorem denied_transformation_changes_nothing_witness:
  "crop_image repo0 service0 7 w0 1 \<lparr>width = 100, height = 80\<rparr> (Crop ''fill'') bob =
       (Inl (HTTPException HTTP_404_NOT_FOUND ''Image not found''), w0)
   \<and> use_effect repo0 service0 7 w0 99 (Effect ''sizzle'') bob =
       (Inl (HTTPException HTTP_404_NOT_FOUND ''Image not found''), w0)
   \<and> uploads w0 = [] \<and> transformed_images (session w0) = [sunset_sepia]"
  using denied_transformation_changes_nothing
      [of repo0 w0 1 bob service0 7 "\<lparr>width = 100, height = 80\<rparr>" "Crop ''fill''" "Effect ''sizzle''"]
    denied_transformation_changes_nothing
      [of repo0 w0 99 bob service0 7 "\<lparr>width = 100, height = 80\<rparr>" "Crop ''fill''" "Effect ''sizzle''"]
    repo0_lookup_absent repo0_lookup_inaccessible
  by (simp add: w0_def db0_def)

subsection \<open>C2: the size limit of an upload\<close>

text \<open>
  Claim C2. An upload whose payload is longer than 5 * 1024 * 1024 bytes fails with
  400 "File size exceeds 5MB" and returns the state it was given, so no call to the
  external service is made. A payload of at most that length passes the check: exactly
  one request, carrying the payload, is sent to the external service; if the service
  raises, the route fails with that and inserts nothing; if it answers with a URL, the
  route returns the image that \<open>create_image\<close> inserts for that URL, with the session
  \<open>create_image\<close> leaves.
\<close>

theorem upload_image_size_limit:
  "(5 * 1024 * 1024 < length file_content \<longrightarrow>
      upload_image R service rnd w file_content body current_user =
        (Inl (HTTPException HTTP_400_BAD_REQUEST ''File size exceeds 5MB''), w))
   \<and> (length file_content \<le> 5 * 1024 * 1024 \<longrightarrow>
        uploads (snd (upload_image R service rnd w file_content body current_user)) =
          uploads w @ [upload_request_of file_content current_user rnd]
        \<and> (service (upload_request_of file_content current_user rnd) = None \<longrightarrow>
             upload_image R service rnd w file_content body current_user =
               (Inl UpstreamFailure,
                w\<lparr>uploads := uploads w @ [upload_request_of file_content current_user rnd]\<rparr>))
        \<and> (\<forall>lnk. service (upload_request_of file_content current_user rnd) = Some lnk \<longrightarrow>
             upload_image R service rnd w file_content body current_user =
               (Inr (fst (create_image R (session w) lnk body current_user)),
                \<lparr>session = snd (create_image R (session w) lnk body current_user),
                 uploads = uploads w @ [upload_request_of file_content current_user rnd]\<rparr>)))"
  by (auto simp: upload_image_def cloudinary_uploader_upload_def Let_def
      split: prod.splits option.splits)

text \<open>A payload of 5 MiB and one byte is refused; a payload of exactly 5 MiB is stored.\<close>

theorem upload_image_size_limit_witness:
  "upload_image repo0 service0 7 w0 (replicate 5242881 0)
       \<lparr>body_description = ''dunes'', body_tags = [''sand'']\<rparr> alice =
     (Inl (HTTPException HTTP_400_BAD_REQUEST ''File size exceeds 5MB''), w0)
   \<and> uploads w0 = []
   \<and> uploads (snd (upload_image repo0 service0 7 w0 (replicate 5242880 0)
       \<lparr>body_description = ''dunes'', body_tags = [''sand'']\<rparr> alice)) =
       [upload_request_of (replicate 5242880 0) alice 7]
   \<and> fst (upload_image repo0 service0 7 w0 (replicate 5242880 0)
       \<lparr>body_description = ''dunes'', body_tags = [''sand'']\<rparr> alice) =
       Inr \<lparr>ident = 4, owner_id = 1, link = ''https://img.example/PhotoShare/alice@example.com_7'',
            description = ''dunes'', tags = [''sand'']\<rparr>"
proof -
  let ?body = "\<lparr>body_description = ''dunes'', body_tags = [''sand'']\<rparr>"
  have big: "5 * 1024 * 1024 < length (replicate 5242881 (0::byte))" by simp
  have ok: "length (replicate 5242880 (0::byte)) \<le> 5 * 1024 * 1024" by simp
  have answer: "service0 (upload_request_of (replicate 5242880 0) alice 7) =
      Some ''https://img.example/PhotoShare/alice@example.com_7''"
    by (simp add: service0_def upload_request_of_def alice_def str_int_def str_nat_7)
  have created:
    "fst (create_image repo0 (session w0) ''https://img.example/PhotoShare/alice@example.com_7''
        ?body alice) =
      \<lparr>ident = 4, owner_id = 1, link = ''https://img.example/PhotoShare/alice@example.com_7'',
        description = ''dunes'', tags = [''sand'']\<rparr>"
    by (simp add: repo0_def repository_spec_def create_image_spec_def fresh_ident_def w0_def
        db0_def Let_def sunset_def harbour_def forest_def alice_def)
  from upload_image_size_limit [of "replicate 5242881 0" repo0 service0 7 w0 ?body alice] big
  have 1: "upload_image repo0 service0 7 w0 (replicate 5242881 0) ?body alice =
     (Inl (HTTPException HTTP_400_BAD_REQUEST ''File size exceeds 5MB''), w0)"
    by blast
  from upload_image_size_limit [of "replicate 5242880 0" repo0 service0 7 w0 ?body alice] ok
  have 2: "uploads (snd (upload_image repo0 service0 7 w0 (replicate 5242880 0) ?body alice)) =
          uploads w0 @ [upload_request_of (replicate 5242880 0) alice 7]"
    and 3: "\<forall>lnk. service0 (upload_request_of (replicate 5242880 0) alice 7) = Some lnk \<longrightarrow>
             upload_image repo0 service0 7 w0 (replicate 5242880 0) ?body alice =
               (Inr (fst (create_image repo0 (session w0) lnk ?body alice)),
                \<lparr>session = snd (create_image repo0 (session w0) lnk ?body alice),
                 uploads = uploads w0 @ [upload_request_of (replicate 5242880 0) alice 7]\<rparr>)"
    by blast+
  from 3 answer
  have 4: "fst (upload_image repo0 service0 7 w0 (replicate 5242880 0) ?body alice) =
       Inr (fst (create_image repo0 (session w0)
                  ''https://img.example/PhotoShare/alice@example.com_7'' ?body alice))"
    by simp
  have 5: "uploads w0 = []" by (simp add: w0_def)
  show ?thesis using 1 2 4 5 created by simp
qed

subsection \<open>C3: the QR-code route does not look at the actor\<close>

text \<open>
  Claim C3. The QR-code route checks no access: for every transformed image the lookup
  finds and any two actors, whatever their roles and whoever owns the parent image, the
  route returns the QR payload of the transformed image's URL to both. The actor takes no
  part in the lookup or in the result.
\<close>

theorem generate_qrcode_ignores_actor:
  assumes "get_transformed_image_db R db image_id = Some timg"
  shows "generate_qrcode R db image_id u1 = Inr (generate_qrcode_by_image R (t_link timg))
       \<and> generate_qrcode R db image_id u2 = generate_qrcode R db image_id u1"
  using assms by (simp add: generate_qrcode_def)

text \<open>Alice owns the parent image; bob is a regular user who does not.\<close>

theorem generate_qrcode_ignores_actor_witness:
  "generate_qrcode repo0 db0 1 alice = Inr (qr0 ''https://img.example/sunset_sepia.jpg'')
   \<and> generate_qrcode repo0 db0 1 bob = generate_qrcode repo0 db0 1 alice
   \<and> owner_id sunset = user_ident alice \<and> owner_id sunset \<noteq> user_ident bob \<and> role bob = regular"
  using generate_qrcode_ignores_actor [of repo0 db0 1 sunset_sepia alice bob]
    repo0_transformed_lookup
  by (simp add: repo0_def repository_spec_def sunset_sepia_def sunset_def alice_def bob_def)

subsection \<open>C4: one NotFound for an absent and for an inaccessible image\<close>

text \<open>
  Claim C4. For every actor and image identifier, reading a single image fails with
  404 "Image not found" whenever the lookup returns no image to the actor, and any two
  such failures are the same value: the caller cannot tell an image that does not exist
  from one that exists and that the actor may not see.
\<close>

theorem get_image_not_found_uniform:
  assumes "get_image_db R db image_id current_user = None"
    and "get_image_db R db' image_id' current_user' = None"
  shows "get_image R db image_id current_user =
           Inl (HTTPException HTTP_404_NOT_FOUND ''Image not found'')
       \<and> get_image R db' image_id' current_user' = get_image R db image_id current_user"
  using assms by (simp add: get_image_def)

text \<open>Image 99 does not exist; image 1 exists, is alice's, and bob may not read it.\<close>

theorem get_image_not_found_uniform_witness:
  "get_image repo0 db0 99 bob = Inl (HTTPException HTTP_404_NOT_FOUND ''Image not found'')
   \<and> get_image repo0 db0 1 bob = get_image repo0 db0 99 bob
   \<and> 99 \<notin> set (map ident (images db0)) \<and> sunset \<in> set (images db0) \<and> ident sunset = 1
   \<and> canAct bob sunset op_read = False"
  using get_image_not_found_uniform [of repo0 db0 99 bob db0 1 bob]
    repo0_lookup_absent repo0_lookup_inaccessible
  by (simp add: db0_def sunset_def harbour_def forest_def canAct_def bob_def)

subsection \<open>C5: validation of a crop request\<close>

text \<open>
  Claim C5. A crop request whose width or height is not positive, or whose crop mode is
  not a member of the enumeration, fails with \<open>InvalidTransform\<close> and returns the state
  it was given, so nothing is sent to the external service; a request with positive width
  and height and a crop mode of the enumeration is handed to \<open>crop_image\<close> unchanged.
\<close>

theorem crop_request_validation:
  "(raw_width \<le> 0 \<or> raw_height \<le> 0 \<or> raw_crop \<notin> set crop_modes \<longrightarrow>
      crop_image_request R service crop_modes rnd w image_id raw_width raw_height raw_crop
          current_user =
        (Inl InvalidTransform, w))
   \<and> (0 < raw_width \<and> 0 < raw_height \<and> raw_crop \<in> set crop_modes \<longrightarrow>
      crop_image_request R service crop_modes rnd w image_id raw_width raw_height raw_crop
          current_user =
        crop_image R service rnd w image_id \<lparr>width = raw_width, height = raw_height\<rparr>
          (Crop raw_crop) current_user)"
  by (auto simp: crop_image_request_def validate_UpdateImageSchema_def validate_Crop_def)

theorem crop_request_validation_witness:
  "crop_image_request repo0 service0 [''fill'', ''fit'', ''thumb'', ''crop'', ''scale''] 7 w0 1
       0 80 ''fill'' alice = (Inl InvalidTransform, w0)
   \<and> crop_image_request repo0 service0 [''fill'', ''fit'', ''thumb'', ''crop'', ''scale''] 7 w0 1
       100 (- 5) ''fill'' alice = (Inl InvalidTransform, w0)
   \<and> crop_image_request repo0 service0 [''fill'', ''fit'', ''thumb'', ''crop'', ''scale''] 7 w0 1
       100 80 ''blur'' alice = (Inl InvalidTransform, w0)
   \<and> uploads w0 = []
   \<and> crop_image_request repo0 service0 [''fill'', ''fit'', ''thumb'', ''crop'', ''scale''] 7 w0 1
       100 80 ''fill'' alice =
     crop_image repo0 service0 7 w0 1 \<lparr>width = 100, height = 80\<rparr> (Crop ''fill'') alice"
  using crop_request_validation [of 0 80 "''fill''"
        "[''fill'', ''fit'', ''thumb'', ''crop'', ''scale'']" repo0 service0 7 w0 1 alice]
    crop_request_validation [of 100 "- 5" "''fill''"
        "[''fill'', ''fit'', ''thumb'', ''crop'', ''scale'']" repo0 service0 7 w0 1 alice]
    crop_request_validation [of 100 80 "''blur''"
        "[''fill'', ''fit'', ''thumb'', ''crop'', ''scale'']" repo0 service0 7 w0 1 alice]
    crop_request_validation [of 100 80 "''fill''"
        "[''fill'', ''fit'', ''thumb'', ''crop'', ''scale'']" repo0 service0 7 w0 1 alice]
  by (simp add: w0_def)

subsection \<open>C6: the outcomes of a search\<close>

text \<open>
  Claim C6. A search with a query shorter than two characters is refused with
  \<open>InvalidQuery\<close>. With a query of at least two characters, the route fails with
  404 "Images with this query not found" when the repository's search finds no image, and
  otherwise returns a list that holds exactly the images found, each as often as it was
  found.
\<close>

theorem search_images_outcomes:
  "(length image_query < 2 \<longrightarrow>
      search_images R key_of db order_by descending image_query current_user = Inl InvalidQuery)
   \<and> (2 \<le> length image_query \<and> search_images_by_description_or_tag R image_query db = [] \<longrightarrow>
      search_images R key_of db order_by descending image_query current_user =
        Inl (HTTPException HTTP_404_NOT_FOUND ''Images with this query not found''))
   \<and> (2 \<le> length image_query \<and> search_images_by_description_or_tag R image_query db \<noteq> [] \<longrightarrow>
      (\<exists>found. search_images R key_of db order_by descending image_query current_user = Inr found
         \<and> mset found = mset (search_images_by_description_or_tag R image_query db)))"
  by (auto simp: search_images_def Let_def mset_sorter)

text \<open>In the instance no image is tagged "ab" and two images are tagged "sea".\<close>

theorem search_images_outcomes_witness:
  "search_images repo0 rating0 db0 by_rating True ''s'' bob = Inl InvalidQuery
   \<and> search_images repo0 rating0 db0 by_rating True ''ab'' bob =
       Inl (HTTPException HTTP_404_NOT_FOUND ''Images with this query not found'')
   \<and> (\<exists>found. search_images repo0 rating0 db0 by_rating True ''sea'' bob = Inr found
         \<and> mset found = mset [sunset, harbour])"
  using search_images_outcomes [of "''s''" repo0 rating0 db0 by_rating True bob]
    search_images_outcomes [of "''ab''" repo0 rating0 db0 by_rating True bob]
    search_images_outcomes [of "''sea''" repo0 rating0 db0 by_rating True bob]
    repo0_search_sea repo0_search_ab
  by simp

subsection \<open>C7: sorting by rating, descending, is a stable sort\<close>

text \<open>
  Claim C7. For every list of images, sorting by the rating key with \<open>descending\<close> set
  returns a permutation of the list in which the ratings never increase, and the images
  of any one rating stand in the order they had in the input.
\<close>

theorem sorter_descending_stable:
  "mset (sorter key_of imgs by_rating True) = mset imgs
   \<and> sorted_wrt (\<lambda>a b. key_of by_rating b \<le> key_of by_rating a)
        (sorter key_of imgs by_rating True)
   \<and> (\<forall>k. filter (\<lambda>img. key_of by_rating img = k) (sorter key_of imgs by_rating True) =
           filter (\<lambda>img. key_of by_rating img = k) imgs)"
  using mset_sorter [of key_of imgs by_rating True] sorted_desc_sorter [of key_of by_rating imgs]
    stable_sorter [of key_of by_rating _ imgs True]
  by blast

text \<open>Ratings 3, 5, 3: the image rated 5 comes first, the two rated 3 keep their order.\<close>

theorem sorter_descending_stable_witness:
  "sorter rating0 [sunset, harbour, forest] by_rating True = [harbour, sunset, forest]
   \<and> map (rating0 by_rating) [sunset, harbour, forest] = [3, 5, 3]
   \<and> mset (sorter rating0 [sunset, harbour, forest] by_rating True) =
       mset [sunset, harbour, forest]"
  using sorter_descending_stable [of rating0 "[sunset, harbour, forest]"]
  by (simp add: sorter_def rating0_def sunset_def harbour_def forest_def)

subsection \<open>C8: a transformation adds a row and leaves the parent image alone\<close>

text \<open>
  Claim C8. For a crop or an effect on an existing image the actor may access, the request
  sent to the external service carries the parent image's current URL and the descriptor
  of the transformation; when the service answers with a derived URL, the route returns
  a new transformed-image row with that URL, linked to the parent image and appended to
  the table of transformed images, and the table of images, hence the parent image with
  its URL and every other field, is as before.
\<close>

theorem transformation_is_additive:
  assumes found:
    "get_image_db (repository_spec may matches qr) (session w) image_id current_user = Some img"
  shows "ident img = image_id \<and> img \<in> set (images (session w))
    \<and> req_file (crop_request img sz crop current_user rnd) = Url (link img)
    \<and> req_transformation (crop_request img sz crop current_user rnd) =
        Some [(''crop'', crop_value crop), (''width'', str_int (width sz)),
              (''height'', str_int (height sz))]
    \<and> req_file (effect_request img e current_user rnd) = Url (link img)
    \<and> req_transformation (effect_request img e current_user rnd) =
        Some [(''effect'', ''art:'' @ effect_value e)]
    \<and> (\<forall>crop_url. service (crop_request img sz crop current_user rnd) = Some crop_url \<longrightarrow>
         (\<exists>t. crop_image (repository_spec may matches qr) service rnd w image_id sz crop
                 current_user =
               (Inr t, \<lparr>session = \<lparr>images = images (session w),
                                    transformed_images = transformed_images (session w) @ [t]\<rparr>,
                        uploads = uploads w @ [crop_request img sz crop current_user rnd]\<rparr>)
             \<and> t_link t = crop_url \<and> t_image_id t = ident img))
    \<and> (\<forall>effect_url. service (effect_request img e current_user rnd) = Some effect_url \<longrightarrow>
         (\<exists>t. use_effect (repository_spec may matches qr) service rnd w image_id e current_user =
               (Inr t, \<lparr>session = \<lparr>images = images (session w),
                                    transformed_images = transformed_images (session w) @ [t]\<rparr>,
                        uploads = uploads w @ [effect_request img e current_user rnd]\<rparr>)
             \<and> t_link t = effect_url \<and> t_image_id t = ident img))"
proof -
  from found have lookup: "get_image_db_spec may (session w) image_id current_user = Some img"
    by (simp add: repository_spec_def)
  then have parent: "ident img = image_id" "img \<in> set (images (session w))"
    using get_image_db_spec_ident [of may "session w" image_id current_user img] by simp_all
  have requests:
    "req_file (crop_request img sz crop current_user rnd) = Url (link img)"
    "req_transformation (crop_request img sz crop current_user rnd) =
        Some [(''crop'', crop_value crop), (''width'', str_int (width sz)),
              (''height'', str_int (height sz))]"
    "req_file (effect_request img e current_user rnd) = Url (link img)"
    "req_transformation (effect_request img e current_user rnd) =
        Some [(''effect'', ''art:'' @ effect_value e)]"
    by (simp_all add: crop_request_def effect_request_def)
  have crop_run:
    "\<forall>crop_url. service (crop_request img sz crop current_user rnd) = Some crop_url \<longrightarrow>
       (\<exists>t. crop_image (repository_spec may matches qr) service rnd w image_id sz crop
               current_user =
             (Inr t, \<lparr>session = \<lparr>images = images (session w),
                                  transformed_images = transformed_images (session w) @ [t]\<rparr>,
                      uploads = uploads w @ [crop_request img sz crop current_user rnd]\<rparr>)
           \<and> t_link t = crop_url \<and> t_image_id t = ident img)"
    using lookup parent(1)
    by (simp add: crop_image_def repository_spec_def cloudinary_uploader_upload_def
        save_transformed_image_spec_def Let_def)
  have effect_run:
    "\<forall>effect_url. service (effect_request img e current_user rnd) = Some effect_url \<longrightarrow>
       (\<exists>t. use_effect (repository_spec may matches qr) service rnd w image_id e current_user =
             (Inr t, \<lparr>session = \<lparr>images = images (session w),
                                  transformed_images = transformed_images (session w) @ [t]\<rparr>,
                      uploads = uploads w @ [effect_request img e current_user rnd]\<rparr>)
           \<and> t_link t = effect_url \<and> t_image_id t = ident img)"
    using lookup parent(1)
    by (simp add: use_effect_def repository_spec_def cloudinary_uploader_upload_def
        save_transformed_image_spec_def Let_def)
  from parent requests crop_run effect_run show ?thesis by blast
qed

text \<open>Alice crops her image 1 and applies an effect to it.\<close>

theorem transformation_is_additive_witness:
  "ident sunset = 1
   \<and> (\<exists>t. crop_image repo0 service0 7 w0 1 \<lparr>width = 100, height = 80\<rparr> (Crop ''fill'') alice =
             (Inr t, \<lparr>session = \<lparr>images = [sunset, harbour, forest],
                                  transformed_images = [sunset_sepia, t]\<rparr>,
                      uploads = [crop_request sunset \<lparr>width = 100, height = 80\<rparr>
                                   (Crop ''fill'') alice 7]\<rparr>)
           \<and> t_link t = ''https://img.example/PhotoShare(transformed)/alice@example.com_7''
           \<and> t_image_id t = 1)
   \<and> (\<exists>t. use_effect repo0 service0 7 w0 1 (Effect ''sizzle'') alice =
             (Inr t, \<lparr>session = \<lparr>images = [sunset, harbour, forest],
                                  transformed_images = [sunset_sepia, t]\<rparr>,
                      uploads = [effect_request sunset (Effect ''sizzle'') alice 7]\<rparr>)
           \<and> t_link t = ''https://img.example/PhotoShare(transformed)/alice@example.com_7''
           \<and> t_image_id t = 1)"
proof -
  have found:
    "get_image_db (repository_spec (\<lambda>actor img. canAct actor img op_read) tag_matches qr0)
      (session w0) 1 alice = Some sunset"
    using repo0_lookup_own by (simp add: repo0_def w0_def)
  have parent: "ident sunset = 1"
    by (simp add: sunset_def)
  show ?thesis
    using transformation_is_additive [OF found, of "\<lparr>width = 100, height = 80\<rparr>" "Crop ''fill''" 7
        "Effect ''sizzle''" service0]
      service0_crop service0_effect
    by (simp add: repo0_def w0_def db0_def parent)
qed

subsection \<open>C9: listing a user's images is for admins and moderators\<close>

text \<open>
  Claim C9. Listing the images of a user succeeds only if the requesting actor's role is
  admin or moderator; a regular actor is refused with \<open>Forbidden\<close>. On success the
  route returns what the repository's query for the target user returns, which for the
  repository after the specification is every image owned by that user.
\<close>

theorem list_images_requires_staff:
  "(role current_user = regular \<longrightarrow>
      get_images_by_user_id R db user_id current_user = Inl Forbidden)
   \<and> (role current_user \<in> {admin, moderator} \<longrightarrow>
      get_images_by_user_id R db user_id current_user =
        Inr (get_images_by_user_id_db R db user_id))
   \<and> ((\<exists>imgs. get_images_by_user_id R db user_id current_user = Inr imgs) \<longrightarrow>
      role current_user \<in> {admin, moderator})
   \<and> (role current_user \<in> {admin, moderator} \<longrightarrow>
      get_images_by_user_id (repository_spec may matches qr) db user_id current_user =
        Inr (filter (\<lambda>img. owner_id img = user_id) (images db)))"
  by (cases "role current_user")
     (simp_all add: get_images_by_user_id_def RoleAccess_def repository_spec_def
        get_images_by_user_id_spec_def)

text \<open>Bob is refused; carol, a moderator, and dave, an admin, get alice's two images.\<close>

theorem list_images_requires_staff_witness:
  "get_images_by_user_id repo0 db0 1 bob = Inl Forbidden
   \<and> get_images_by_user_id repo0 db0 1 carol = Inr [sunset, forest]
   \<and> get_images_by_user_id repo0 db0 1 dave = Inr [sunset, forest]
   \<and> role bob = regular \<and> role carol = moderator \<and> role dave = admin"
proof -
  have roles: "role bob = regular" "role carol \<in> {admin, moderator}"
    "role dave \<in> {admin, moderator}"
    by (simp_all add: bob_def carol_def dave_def)
  have owned: "filter (\<lambda>img. owner_id img = 1) (images db0) = [sunset, forest]"
    by (simp add: db0_def sunset_def harbour_def forest_def)
  from list_images_requires_staff [of bob repo0 db0 1] roles(1)
  have 1: "get_images_by_user_id repo0 db0 1 bob = Inl Forbidden"
    by blast
  from list_images_requires_staff
      [of carol _ db0 1 "\<lambda>actor img. canAct actor img op_read" tag_matches qr0] roles(2)
  have 2: "get_images_by_user_id repo0 db0 1 carol = Inr [sunset, forest]"
    unfolding repo0_def owned [symmetric] by blast
  from list_images_requires_staff
      [of dave _ db0 1 "\<lambda>actor img. canAct actor img op_read" tag_matches qr0] roles(3)
  have 3: "get_images_by_user_id repo0 db0 1 dave = Inr [sunset, forest]"
    unfolding repo0_def owned [symmetric] by blast
  show ?thesis using 1 2 3 by (simp add: bob_def carol_def dave_def)
qed

subsection \<open>C10: an accepted rating has its score within the range\<close>



end
